theory Spec2Isabelle
  imports Complex_Main
begin

section \<open>The wallet session manager of the Lazorkit example application\<close>

text \<open>
  This theory embeds the wallet provider of \<^verbatim>\<open>context/WalletContext.tsx\<close> and the
  session-key check of \<^verbatim>\<open>utils/lazorkit.ts\<close>.

  Conventions of the embedding:
  \<^item> the provider stores its numbers (amounts, timestamps) and never compares them; there
    a JavaScript \<^verbatim>\<open>number\<close> is the real number it denotes. The session-key check
    compares its numbers and tests them for truth; there a number is a value of the type
    \<open>number\<close>, which has \<^verbatim>\<open>NaN\<close> and the two infinities;
  \<^item> \<^verbatim>\<open>string | null\<close> is \<open>string option\<close>, and an optional field is an \<open>option\<close>;
  \<^item> the React state of the provider and the key-value store behind
    \<^verbatim>\<open>expo-secure-store\<close> are the fields of one record, which every operation takes and
    returns; a state setter is a record update, and the state an operation returns is the
    one the component renders once the operation's promise has settled;
  \<^item> an operation is called through the callback of the latest render, so that the
    \<^verbatim>\<open>isConnected\<close> and \<^verbatim>\<open>transactions\<close> it has captured are those of the state it is
    applied to;
  \<^item> a call into \<^verbatim>\<open>expo-secure-store\<close> resolves or rejects; which calls reject, and
    with what, is an argument of the operation that makes them;
  \<^item> a thrown \<^verbatim>\<open>Error\<close> is a value \<open>Error message\<close>, any other thrown value is
    \<open>Thrown\<close>, and a call that throws returns the exception on the left of a sum;
  \<^item> \<^verbatim>\<open>Date.now()\<close> and \<^verbatim>\<open>Math.random()\<close> are arguments of the operation that reads
    them, one argument for each read.
\<close>

subsection \<open>Public keys\<close>

text \<open>
  Modelled from the spec: the address format of the chain, which the provider checks
  with the constructor \<^verbatim>\<open>new PublicKey(value)\<close> of the library \<^verbatim>\<open>@solana/web3.js\<close>; the
  library is not part of the repository. Applied to a string, the constructor decodes
  the string as base 58 and throws unless the decoded byte array has exactly 32 bytes.
  The decoder counts the leading \<^verbatim>\<open>1\<close> characters as zero bytes, rejects a character
  outside the alphabet, and appends the big-endian bytes of the number the digits
  denote, without leading zero bytes. The key keeps that number, and \<^verbatim>\<open>equals\<close>
  compares the numbers.
\<close>

datatype exn = Error string | Thrown

datatype PublicKey = PublicKey nat

definition ALPHABET :: string where
  "ALPHABET = ''123456789ABCDEFGHJKLMNPQRSTUVWXYZabcdefghijkmnopqrstuvwxyz''"

fun index_in :: "string \<Rightarrow> char \<Rightarrow> nat option" where
  "index_in [] c = None"
| "index_in (a # as) c =
     (if a = c then Some 0 else map_option Suc (index_in as c))"

fun base58_value :: "nat \<Rightarrow> string \<Rightarrow> nat option" where
  "base58_value acc [] = Some acc"
| "base58_value acc (c # cs) =
     (case index_in ALPHABET c of
        None \<Rightarrow> None
      | Some d \<Rightarrow> base58_value (acc * 58 + d) cs)"

fun byteLength :: "nat \<Rightarrow> nat" where
  "byteLength n = (if n = 0 then 0 else Suc (byteLength (n div 256)))"

definition bs58_decode_length :: "string \<Rightarrow> exn + (nat \<times> nat)" where
  "bs58_decode_length source =
     (let zeroes = length (takeWhile (\<lambda>c. c = CHR ''1'') source)
      in case base58_value 0 source of
           None \<Rightarrow> Inl (Error ''Non-base58 character'')
         | Some v \<Rightarrow> Inr (zeroes + byteLength v, v))"

definition new_PublicKey :: "string \<Rightarrow> exn + PublicKey" where
  "new_PublicKey value =
     (case bs58_decode_length value of
        Inl e \<Rightarrow> Inl e
      | Inr (len, v) \<Rightarrow>
          if len \<noteq> 32 then Inl (Error ''Invalid public key input'')
          else Inr (PublicKey v))"

text \<open>\<^verbatim>\<open>isValidSolanaAddress\<close> of \<^verbatim>\<open>utils/helpers.ts\<close>: the constructor does not throw.\<close>

definition isValidSolanaAddress :: "string \<Rightarrow> bool" where
  "isValidSolanaAddress address =
     (case new_PublicKey address of Inl e \<Rightarrow> False | Inr k \<Rightarrow> True)"

subsection \<open>Session keys (\<^verbatim>\<open>utils/lazorkit.ts\<close>)\<close>

text \<open>
  A JavaScript \<^verbatim>\<open>number\<close>. \<open>js_lt x y\<close> is \<^verbatim>\<open>x < y\<close>, \<open>js_gt x y\<close> is \<^verbatim>\<open>x > y\<close>,
  \<open>js_le x y\<close> is \<^verbatim>\<open>x <= y\<close> and \<open>js_ge x y\<close> is \<^verbatim>\<open>x >= y\<close>: each of them is false
  when an operand is \<^verbatim>\<open>NaN\<close>. \<open>js_truthy x\<close> is the truth of \<open>x\<close> in a condition: false
  for 0 and for \<^verbatim>\<open>NaN\<close>.
\<close>

datatype number = NaN | NegInfinity | Finite real | Infinity

fun js_lt :: "number \<Rightarrow> number \<Rightarrow> bool" where
  "js_lt NaN y = False"
| "js_lt x NaN = False"
| "js_lt x NegInfinity = False"
| "js_lt NegInfinity y = True"
| "js_lt Infinity y = False"
| "js_lt (Finite a) (Finite b) = (a < b)"
| "js_lt (Finite a) Infinity = True"

definition js_gt :: "number \<Rightarrow> number \<Rightarrow> bool" where
  "js_gt x y = js_lt y x"

definition js_le :: "number \<Rightarrow> number \<Rightarrow> bool" where
  "js_le x y \<longleftrightarrow> x \<noteq> NaN \<and> y \<noteq> NaN \<and> \<not> js_lt y x"

definition js_ge :: "number \<Rightarrow> number \<Rightarrow> bool" where
  "js_ge x y = js_le y x"

fun js_truthy :: "number \<Rightarrow> bool" where
  "js_truthy NaN = False"
| "js_truthy (Finite r) = (r \<noteq> 0)"
| "js_truthy NegInfinity = True"
| "js_truthy Infinity = True"

record SessionPermissions =
  maxAmount :: "number option"
  allowedRecipients :: "PublicKey list option"
  allowedTokens :: "PublicKey list option"
  allowedPrograms :: "PublicKey list option"

record SessionKey =
  publicKey_of :: PublicKey
  permissions :: SessionPermissions
  createdAt :: number
  expiresAt :: number

text \<open>
  \<^verbatim>\<open>validateSessionKeyPermissions\<close>; the first argument is the value of \<^verbatim>\<open>Date.now()\<close>.
  The test \<^verbatim>\<open>permissions.maxAmount && amount > permissions.maxAmount\<close> is false for an
  absent limit and for a limit that is 0 or \<^verbatim>\<open>NaN\<close>;
  \<^verbatim>\<open>xs.some((r) => r.equals(k))\<close> is membership of \<open>k\<close> in \<open>xs\<close>.
\<close>

definition validateSessionKeyPermissions ::
  "number \<Rightarrow> SessionKey \<Rightarrow> PublicKey \<Rightarrow> number \<Rightarrow> PublicKey \<Rightarrow> bool" where
  "validateSessionKeyPermissions now sessionKey rcpt amt tok =
     (let perms = permissions sessionKey
      in if js_lt (expiresAt sessionKey) now then False
         else if (case maxAmount perms of
                    None \<Rightarrow> False
                  | Some m \<Rightarrow> js_truthy m \<and> js_gt amt m) then False
         else if (case allowedRecipients perms of
                    None \<Rightarrow> False
                  | Some rs \<Rightarrow> \<not> list_ex (\<lambda>r. r = rcpt) rs) then False
         else if (case allowedTokens perms of
                    None \<Rightarrow> False
                  | Some ts \<Rightarrow> \<not> list_ex (\<lambda>t. t = tok) ts) then False
         else True)"

subsection \<open>Transactions and the provider state (\<^verbatim>\<open>context/WalletContext.tsx\<close>)\<close>

datatype TransactionType = send | receive | swap | billing

datatype TransactionStatus = pending | confirmed | failed

record Transaction =
  tx_id :: string
  signature :: string
  tx_type :: TransactionType
  amount :: real
  token :: string
  recipient :: "string option"
  timestamp :: real
  status :: TransactionStatus

record Options =
  redirectUrl :: "string option"

text \<open>
  The seven \<^verbatim>\<open>useState\<close> cells of \<^verbatim>\<open>WalletProvider\<close>, and the secure store with its
  keys \<^verbatim>\<open>walletAddress\<close>, \<^verbatim>\<open>lastActivity\<close> and \<^verbatim>\<open>transactions\<close>.
\<close>

record Provider =
  walletAddress :: "string option"
  publicKey :: "PublicKey option"
  isConnected :: bool
  isLoading :: bool
  error :: "string option"
  transactions :: "Transaction list"
  lastActivity :: "real option"
  secureStore :: "string \<rightharpoonup> string"

text \<open>The state of a freshly mounted provider over a given secure store.\<close>

definition mounted :: "(string \<rightharpoonup> string) \<Rightarrow> Provider" where
  "mounted store =
     \<lparr> walletAddress = None, publicKey = None, isConnected = False, isLoading = False,
       error = None, transactions = [], lastActivity = None, secureStore = store \<rparr>"

text \<open>
  The functions of the JavaScript runtime that the provider calls on stored strings.
  \<open>JSON_parse\<close> gives \<open>None\<close> where \<^verbatim>\<open>JSON.parse\<close> throws a \<^verbatim>\<open>SyntaxError\<close>, and the
  transaction list the text denotes otherwise (a text that is JSON but does not denote a
  list of records is not represented). \<^verbatim>\<open>parseInt\<close> never throws.
\<close>

record Runtime =
  parseInt :: "string \<Rightarrow> real"
  JSON_parse :: "string \<Rightarrow> Transaction list option"
  JSON_stringify :: "Transaction list \<Rightarrow> string"
  toString :: "real \<Rightarrow> string"

text \<open>
  The three calls of \<^verbatim>\<open>expo-secure-store\<close>. A call rejects with the exception that the
  fault assignment gives it, and resolves when the assignment gives none. A value read
  from the store is a \<^verbatim>\<open>string | null\<close>; in a condition it is true when it is neither
  null nor the empty string.
\<close>

datatype StoreCall = GetItem string | SetItem string string | DeleteItem string

type_synonym Faults = "StoreCall \<Rightarrow> exn option"

definition noFaults :: Faults where
  "noFaults = (\<lambda>c. None)"

definition getItemAsync :: "Faults \<Rightarrow> string \<Rightarrow> Provider \<Rightarrow> exn + string option" where
  "getItemAsync flt key w =
     (case flt (GetItem key) of Some e \<Rightarrow> Inl e | None \<Rightarrow> Inr (secureStore w key))"

definition setItemAsync :: "Faults \<Rightarrow> string \<Rightarrow> string \<Rightarrow> Provider \<Rightarrow> exn + Provider" where
  "setItemAsync flt key v w =
     (case flt (SetItem key v) of
        Some e \<Rightarrow> Inl e
      | None \<Rightarrow> Inr (w\<lparr>secureStore := (secureStore w)(key \<mapsto> v)\<rparr>))"

definition deleteItemAsync :: "Faults \<Rightarrow> string \<Rightarrow> Provider \<Rightarrow> exn + Provider" where
  "deleteItemAsync flt key w =
     (case flt (DeleteItem key) of
        Some e \<Rightarrow> Inl e
      | None \<Rightarrow> Inr (w\<lparr>secureStore := (secureStore w)(key := None)\<rparr>))"

text \<open>\<^verbatim>\<open>err instanceof Error ? err.message : fallback\<close>.\<close>

fun errorMessage :: "exn \<Rightarrow> string \<Rightarrow> string" where
  "errorMessage (Error msg) fallback = msg"
| "errorMessage Thrown fallback = fallback"

subsection \<open>\<^verbatim>\<open>restoreSession\<close>\<close>

text \<open>
  The three conditionals of the \<^verbatim>\<open>try\<close> block. Each returns on the left the state
  reached when an exception leaves it: \<^verbatim>\<open>setWalletAddress(savedWallet)\<close> has run when the
  constructor of the next statement throws.
\<close>

definition restoreWallet :: "string option \<Rightarrow> Provider \<Rightarrow> Provider + Provider" where
  "restoreWallet savedWallet w =
     (case savedWallet of
        None \<Rightarrow> Inr w
      | Some a \<Rightarrow>
          if a = [] then Inr w
          else (let w1 = w\<lparr>walletAddress := Some a\<rparr>
                in case new_PublicKey a of
                     Inl e \<Rightarrow> Inl w1
                   | Inr k \<Rightarrow> Inr (w1\<lparr>publicKey := Some k, isConnected := True\<rparr>)))"

definition restoreActivity :: "Runtime \<Rightarrow> string option \<Rightarrow> Provider \<Rightarrow> Provider" where
  "restoreActivity rt savedActivity w =
     (case savedActivity of
        None \<Rightarrow> w
      | Some a \<Rightarrow> if a = [] then w else w\<lparr>lastActivity := Some (parseInt rt a)\<rparr>)"

definition restoreTransactions ::
  "Runtime \<Rightarrow> string option \<Rightarrow> Provider \<Rightarrow> Provider + Provider" where
  "restoreTransactions rt savedTransactions w =
     (case savedTransactions of
        None \<Rightarrow> Inr w
      | Some t \<Rightarrow>
          if t = [] then Inr w
          else (case JSON_parse rt t of
                  None \<Rightarrow> Inl w
                | Some txs \<Rightarrow> Inr (w\<lparr>transactions := txs\<rparr>)))"

text \<open>
  The \<^verbatim>\<open>try\<close> block of \<^verbatim>\<open>restoreSession\<close>: the three reads, then the three conditionals.
  On the left is the state in which an exception reaches the \<^verbatim>\<open>catch\<close> block.
\<close>

definition restoreSession_try :: "Runtime \<Rightarrow> Faults \<Rightarrow> Provider \<Rightarrow> Provider + Provider" where
  "restoreSession_try rt flt w =
     (case getItemAsync flt ''walletAddress'' w of
        Inl e \<Rightarrow> Inl w
      | Inr savedWallet \<Rightarrow>
     (case getItemAsync flt ''lastActivity'' w of
        Inl e \<Rightarrow> Inl w
      | Inr savedActivity \<Rightarrow>
     (case getItemAsync flt ''transactions'' w of
        Inl e \<Rightarrow> Inl w
      | Inr savedTransactions \<Rightarrow>
     (case restoreWallet savedWallet w of
        Inl w1 \<Rightarrow> Inl w1
      | Inr w1 \<Rightarrow>
          restoreTransactions rt savedTransactions
            (restoreActivity rt savedActivity w1)))))"

definition restoreSession :: "Runtime \<Rightarrow> Faults \<Rightarrow> Provider \<Rightarrow> Provider" where
  "restoreSession rt flt w =
     (case restoreSession_try rt flt w of
        Inl w' \<Rightarrow> w'\<lparr>error := Some ''Failed to restore session''\<rparr>
      | Inr w' \<Rightarrow> w')"

subsection \<open>\<^verbatim>\<open>clearSession\<close>, \<^verbatim>\<open>connectWallet\<close>, \<^verbatim>\<open>disconnectWallet\<close>\<close>

text \<open>
  \<^verbatim>\<open>clearSession\<close>: the three deletions and the six setters stand in one \<^verbatim>\<open>try\<close> block,
  whose \<^verbatim>\<open>catch\<close> block only logs. A deletion that rejects ends the call with the
  deletions made so far and no setter run.
\<close>

definition clearSession :: "Faults \<Rightarrow> Provider \<Rightarrow> Provider" where
  "clearSession flt w =
     (case deleteItemAsync flt ''walletAddress'' w of
        Inl e \<Rightarrow> w
      | Inr w1 \<Rightarrow>
     (case deleteItemAsync flt ''lastActivity'' w1 of
        Inl e \<Rightarrow> w1
      | Inr w2 \<Rightarrow>
     (case deleteItemAsync flt ''transactions'' w2 of
        Inl e \<Rightarrow> w2
      | Inr w3 \<Rightarrow>
          w3\<lparr>walletAddress := None, publicKey := None, isConnected := False,
             transactions := [], lastActivity := None, error := None\<rparr>)))"

text \<open>
  \<^verbatim>\<open>connectWallet\<close>: \<open>rnd\<close> is \<^verbatim>\<open>Math.random().toString(36).substr(2, 9)\<close>, \<open>t1\<close> and
  \<open>t2\<close> are the two readings of the clock. \<open>connectWallet_try\<close> is the \<^verbatim>\<open>try\<close> block,
  with the exception and the state reached on the left. The \<^verbatim>\<open>catch\<close> block stores the
  message and resets \<^verbatim>\<open>isConnected\<close>; the \<^verbatim>\<open>finally\<close> block resets \<^verbatim>\<open>isLoading\<close>.
\<close>

definition connectWallet_try ::
  "Runtime \<Rightarrow> Faults \<Rightarrow> string \<Rightarrow> real \<Rightarrow> real \<Rightarrow> Provider \<Rightarrow> (exn \<times> Provider) + Provider" where
  "connectWallet_try rt flt rnd t1 t2 w0 =
     (let simulatedAddress = ''LazorKitWallet'' @ rnd;
          w1 = w0\<lparr>walletAddress := Some simulatedAddress\<rparr>
      in case new_PublicKey ''11111111111111111111111111111111'' of
           Inl e \<Rightarrow> Inl (e, w1)
         | Inr k \<Rightarrow>
             (let w2 = w1\<lparr>publicKey := Some k, isConnected := True\<rparr>
              in case setItemAsync flt ''walletAddress'' simulatedAddress w2 of
                   Inl e \<Rightarrow> Inl (e, w2)
                 | Inr w3 \<Rightarrow>
                     (case setItemAsync flt ''lastActivity'' (toString rt t1) w3 of
                        Inl e \<Rightarrow> Inl (e, w3)
                      | Inr w4 \<Rightarrow> Inr (w4\<lparr>lastActivity := Some t2\<rparr>))))"

definition connectWallet ::
  "Runtime \<Rightarrow> Faults \<Rightarrow> string \<Rightarrow> real \<Rightarrow> real \<Rightarrow> Options option \<Rightarrow> Provider \<Rightarrow> Provider" where
  "connectWallet rt flt rnd t1 t2 options w =
     (case connectWallet_try rt flt rnd t1 t2 (w\<lparr>isLoading := True, error := None\<rparr>) of
        Inl (e, w') \<Rightarrow>
          w'\<lparr>error := Some (errorMessage e ''Failed to connect wallet''),
             isConnected := False\<rparr>
      | Inr w' \<Rightarrow> w')
     \<lparr>isLoading := False\<rparr>"

definition disconnectWallet :: "Faults \<Rightarrow> Provider \<Rightarrow> Provider" where
  "disconnectWallet flt w = clearSession flt w"

subsection \<open>\<^verbatim>\<open>signMessage\<close> and \<^verbatim>\<open>sendTransaction\<close>\<close>

text \<open>
  \<^verbatim>\<open>signMessage\<close>: \<open>rnd\<close> is \<^verbatim>\<open>Math.random().toString(36).substr(2, 16)\<close>. The test of
  \<^verbatim>\<open>isConnected\<close> stands before the \<^verbatim>\<open>try\<close> block and before every state setter. No
  statement of the \<^verbatim>\<open>try\<close> block can throw, so its \<^verbatim>\<open>catch\<close> block is never entered.
\<close>

definition signMessage ::
  "string \<Rightarrow> real \<Rightarrow> string \<Rightarrow> Options option \<Rightarrow> Provider \<Rightarrow> (exn + string) \<times> Provider" where
  "signMessage rnd t message options w =
     (if \<not> isConnected w then (Inl (Error ''Wallet not connected''), w)
      else (let w1 = w\<lparr>isLoading := True\<rparr>;
                sig = ''sig_'' @ rnd;
                w2 = w1\<lparr>lastActivity := Some t\<rparr>
            in (Inr sig, w2\<lparr>isLoading := False\<rparr>)))"

text \<open>
  \<^verbatim>\<open>sendTransaction\<close>: \<open>rnd\<close> is \<^verbatim>\<open>Math.random().toString(36).substr(2, 16)\<close>; \<open>t1\<close>,
  \<open>t2\<close> and \<open>t3\<close> are the readings of the clock for the record, for \<^verbatim>\<open>lastActivity\<close>
  and for the stored \<^verbatim>\<open>lastActivity\<close>. The record's type is \<^verbatim>\<open>send\<close> on both branches of
  the conditional expression of the source. The list written to the store is built from
  the \<^verbatim>\<open>transactions\<close> of the render that created the callback, the list in the state
  from the state itself; between two awaited calls they are the same list. The
  \<^verbatim>\<open>catch\<close> block stores the message and throws the exception again.
\<close>

definition newTx :: "string \<Rightarrow> real \<Rightarrow> string \<Rightarrow> real \<Rightarrow> string \<Rightarrow> Transaction" where
  "newTx txId t1 rcpt amt tok =
     \<lparr> tx_id = txId, signature = txId,
       tx_type = (if tok = ''USDC'' then send else send),
       amount = amt, token = tok, recipient = Some rcpt, timestamp = t1,
       status = pending \<rparr>"

definition sendTransaction_try ::
  "Runtime \<Rightarrow> Faults \<Rightarrow> string \<Rightarrow> real \<Rightarrow> real \<Rightarrow> real \<Rightarrow> string \<Rightarrow> real \<Rightarrow> string
     \<Rightarrow> Transaction list \<Rightarrow> Provider \<Rightarrow> (exn \<times> Provider) + (string \<times> Provider)" where
  "sendTransaction_try rt flt rnd t1 t2 t3 rcpt amt tok closure_transactions w1 =
     (let txId = ''tx_'' @ rnd;
          tx = newTx txId t1 rcpt amt tok;
          w2 = w1\<lparr>transactions := tx # transactions w1\<rparr>;
          w3 = w2\<lparr>lastActivity := Some t2\<rparr>;
          updated = tx # closure_transactions
      in case setItemAsync flt ''transactions'' (JSON_stringify rt updated) w3 of
           Inl e \<Rightarrow> Inl (e, w3)
         | Inr w4 \<Rightarrow>
             (case setItemAsync flt ''lastActivity'' (toString rt t3) w4 of
                Inl e \<Rightarrow> Inl (e, w4)
              | Inr w5 \<Rightarrow> Inr (txId, w5)))"

definition sendTransaction ::
  "Runtime \<Rightarrow> Faults \<Rightarrow> string \<Rightarrow> real \<Rightarrow> real \<Rightarrow> real \<Rightarrow> string \<Rightarrow> real \<Rightarrow> string
     \<Rightarrow> Options option \<Rightarrow> Provider \<Rightarrow> (exn + string) \<times> Provider" where
  "sendTransaction rt flt rnd t1 t2 t3 rcpt amt tok options w =
     (if \<not> isConnected w then (Inl (Error ''Wallet not connected''), w)
      else (case sendTransaction_try rt flt rnd t1 t2 t3 rcpt amt tok (transactions w)
                   (w\<lparr>isLoading := True\<rparr>) of
              Inl (e, w') \<Rightarrow>
                (Inl e, w'\<lparr>error := Some (errorMessage e ''Failed to send transaction''),
                           isLoading := False\<rparr>)
            | Inr (txId, w') \<Rightarrow> (Inr txId, w'\<lparr>isLoading := False\<rparr>)))"

subsection \<open>A runtime and states for the concrete instances\<close>

text \<open>
  The theorems below hold for every runtime. Their concrete instances use this one: it
  reads every stored timestamp as 1700000000000, parses the text \<^verbatim>\<open>[]\<close> as the empty
  list and the text \<^verbatim>\<open>[tx_k2]\<close> as a list of one record, and rejects every other text.
\<close>

definition exampleTx :: Transaction where
  "exampleTx =
     \<lparr> tx_id = ''tx_k2'', signature = ''tx_k2'', tx_type = send, amount = 10,
       token = ''USDC'', recipient = Some ''11111111111111111111111111111112'',
       timestamp = 1699999999000, status = pending \<rparr>"

definition exampleRuntime :: Runtime where
  "exampleRuntime =
     \<lparr> parseInt = (\<lambda>s. 1700000000000),
       JSON_parse = (\<lambda>s. if s = ''[]'' then Some []
                          else if s = ''[tx_k2]'' then Some [exampleTx] else None),
       JSON_stringify = (\<lambda>txs. if txs = [] then ''[]''
                              else if txs = [exampleTx] then ''[tx_k2]'' else ''[..]''),
       toString = (\<lambda>t. ''1700000000000'') \<rparr>"

text \<open>A store that holds a valid address, a timestamp and a list of one record.\<close>

definition validStore :: "string \<rightharpoonup> string" where
  "validStore =
     [''walletAddress'' \<mapsto> ''11111111111111111111111111111111'',
      ''lastActivity'' \<mapsto> ''1700000000000'',
      ''transactions'' \<mapsto> ''[tx_k2]'']"


text \<open>A store whose address is not a base-58 text of 32 bytes.\<close>

definition invalidStore :: "string \<rightharpoonup> string" where
  "invalidStore = validStore(''walletAddress'' \<mapsto> ''not-a-public-key'')"

text \<open>
  A store that answers every call but the deletion of \<^verbatim>\<open>walletAddress\<close>, which it
  rejects.
\<close>

definition deletionRejected :: Faults where
  "deletionRejected =
     (\<lambda>c. if c = DeleteItem ''walletAddress'' then Some (Error ''Could not delete'')
          else None)"

subsection \<open>Sequences of calls\<close>

text \<open>
  The arguments of one call of \<^verbatim>\<open>sendTransaction\<close>, with the faults of the store during
  the call, its random text and its clock readings.
\<close>

record SendCall =
  call_faults :: Faults
  call_rnd :: string
  call_t1 :: real
  call_t2 :: real
  call_t3 :: real
  call_recipient :: string
  call_amount :: real
  call_token :: string
  call_options :: "Options option"

definition send_call :: "Runtime \<Rightarrow> SendCall \<Rightarrow> Provider \<Rightarrow> (exn + string) \<times> Provider" where
  "send_call rt c w =
     sendTransaction rt (call_faults c) (call_rnd c) (call_t1 c) (call_t2 c) (call_t3 c)
       (call_recipient c) (call_amount c) (call_token c) (call_options c) w"

text \<open>The record that a call creates.\<close>

definition record_of :: "SendCall \<Rightarrow> Transaction" where
  "record_of c =
     newTx (''tx_'' @ call_rnd c) (call_t1 c) (call_recipient c) (call_amount c) (call_token c)"

text \<open>
  A caller that awaits each send before the next and stops at the first one that
  throws; it returns the identifiers of the sends in call order.
\<close>

fun send_all :: "Runtime \<Rightarrow> SendCall list \<Rightarrow> Provider \<Rightarrow> (exn + string list) \<times> Provider" where
  "send_all rt [] w = (Inr [], w)"
| "send_all rt (c # cs) w =
     (case send_call rt c w of
        (Inl e, w') \<Rightarrow> (Inl e, w')
      | (Inr txId, w') \<Rightarrow>
          (case send_all rt cs w' of
             (Inl e, w'') \<Rightarrow> (Inl e, w'')
           | (Inr ids, w'') \<Rightarrow> (Inr (txId # ids), w'')))"

text \<open>
  The operations of the provider, each with the arguments of its call. A step is an
  operation together with the faults of the store while it runs.
\<close>

datatype Operation =
    RestoreSession
  | ClearSession
  | ConnectWallet string real real "Options option"
  | DisconnectWallet
  | SignMessage string real string "Options option"
  | SendTransaction string real real real string real string "Options option"

fun perform :: "Runtime \<Rightarrow> Faults \<times> Operation \<Rightarrow> Provider \<Rightarrow> Provider" where
  "perform rt (flt, RestoreSession) w = restoreSession rt flt w"
| "perform rt (flt, ClearSession) w = clearSession flt w"
| "perform rt (flt, ConnectWallet rnd t1 t2 options) w =
     connectWallet rt flt rnd t1 t2 options w"
| "perform rt (flt, DisconnectWallet) w = disconnectWallet flt w"
| "perform rt (flt, SignMessage rnd t message options) w =
     snd (signMessage rnd t message options w)"
| "perform rt (flt, SendTransaction rnd t1 t2 t3 rcpt amt tok options) w =
     snd (sendTransaction rt flt rnd t1 t2 t3 rcpt amt tok options w)"

fun run :: "Runtime \<Rightarrow> (Faults \<times> Operation) list \<Rightarrow> Provider \<Rightarrow> Provider" where
  "run rt [] w = w"
| "run rt (step # steps) w = run rt steps (perform rt step w)"

text \<open>The stored address is present and \<^verbatim>\<open>new PublicKey\<close> accepts it.\<close>

definition hasValidAddress :: "Provider \<Rightarrow> bool" where
  "hasValidAddress w =
     (case walletAddress w of None \<Rightarrow> False | Some a \<Rightarrow> isValidSolanaAddress a)"

text \<open>
  The state after \<^verbatim>\<open>connectWallet\<close> on a freshly mounted provider with an empty store
  that answers every call.
\<close>

definition connectedState :: Provider where
  "connectedState =
     connectWallet exampleRuntime noFaults ''x7f3k9q2a'' 1700000000000 1700000000001 None
       (mounted Map.empty)"

subsection \<open>The provider over the SDK's wallet store\<close>

text \<open>
  The repository holds a second \<^verbatim>\<open>WalletContext.tsx\<close>, which takes the connection from
  the store of the wallet SDK. Its \<^verbatim>\<open>clearSession\<close> is the one above. Its
  \<^verbatim>\<open>restoreSession\<close> constructs the key before any setter runs and, when the constructor
  throws, awaits \<^verbatim>\<open>clearSession\<close> and returns.
\<close>

definition restoreWallet_sdk ::
  "Faults \<Rightarrow> string option \<Rightarrow> Provider \<Rightarrow> Provider + Provider" where
  "restoreWallet_sdk flt savedWallet w =
     (case savedWallet of
        None \<Rightarrow> Inr w
      | Some a \<Rightarrow>
          if a = [] then Inr w
          else (case new_PublicKey a of
                  Inl e \<Rightarrow> Inl (clearSession flt w)
                | Inr k \<Rightarrow>
                    Inr (w\<lparr>walletAddress := Some a, publicKey := Some k,
                           isConnected := True\<rparr>)))"

text \<open>On the left of the inner sum is a state that is returned as it is, on the right a
  state in which the rest of the \<^verbatim>\<open>try\<close> block runs.\<close>

definition restoreSession_sdk :: "Runtime \<Rightarrow> Faults \<Rightarrow> Provider \<Rightarrow> Provider" where
  "restoreSession_sdk rt flt w =
     (case getItemAsync flt ''walletAddress'' w of
        Inl e \<Rightarrow> w\<lparr>error := Some ''Failed to restore session''\<rparr>
      | Inr savedWallet \<Rightarrow>
     (case getItemAsync flt ''lastActivity'' w of
        Inl e \<Rightarrow> w\<lparr>error := Some ''Failed to restore session''\<rparr>
      | Inr savedActivity \<Rightarrow>
     (case getItemAsync flt ''transactions'' w of
        Inl e \<Rightarrow> w\<lparr>error := Some ''Failed to restore session''\<rparr>
      | Inr savedTransactions \<Rightarrow>
     (case restoreWallet_sdk flt savedWallet w of
        Inl w1 \<Rightarrow> w1
      | Inr w1 \<Rightarrow>
          (case restoreTransactions rt savedTransactions
                  (restoreActivity rt savedActivity w1) of
             Inl w2 \<Rightarrow> w2\<lparr>error := Some ''Failed to restore session''\<rparr>
           | Inr w2 \<Rightarrow> w2)))))"

subsection \<open>The relation between the connection flag and the address\<close>

text \<open>
  A valid stored address implies \<^verbatim>\<open>isConnected\<close>, and \<^verbatim>\<open>isConnected\<close> implies that an
  address and a key are held.
\<close>

definition sessionInv :: "Provider \<Rightarrow> bool" where
  "sessionInv w \<longleftrightarrow>
     (hasValidAddress w \<longrightarrow> isConnected w)
     \<and> (isConnected w \<longrightarrow> walletAddress w \<noteq> None \<and> publicKey w \<noteq> None)"

section \<open>Properties\<close>

subsection \<open>Public keys\<close>

lemma index_in_mem: "index_in xs c \<noteq> None \<longleftrightarrow> c \<in> set xs"
  by (induction xs) auto

lemma base58_value_outside:
  "c \<in> set s \<Longrightarrow> c \<notin> set ALPHABET \<Longrightarrow> base58_value acc s = None"
proof (induction s arbitrary: acc)
  case Nil
  then show ?case by simp
next
  case (Cons a s)
  show ?case
  proof (cases "index_in ALPHABET a")
    case None
    then show ?thesis by simp
  next
    case (Some d)
    then have "a \<in> set ALPHABET" using index_in_mem [of ALPHABET a] by simp
    with Cons.prems have "c \<in> set s" by auto
    with Cons.IH Cons.prems(2) Some show ?thesis by simp
  qed
qed

lemma new_PublicKey_outside:
  "c \<in> set s \<Longrightarrow> c \<notin> set ALPHABET \<Longrightarrow>
     new_PublicKey s = Inl (Error ''Non-base58 character'')"
  by (simp add: new_PublicKey_def bs58_decode_length_def base58_value_outside)

lemma new_PublicKey_empty: "new_PublicKey [] = Inl (Error ''Invalid public key input'')"
  by (simp add: new_PublicKey_def bs58_decode_length_def)

lemma new_PublicKey_system_program:
  "new_PublicKey ''11111111111111111111111111111111'' = Inr (PublicKey 0)"
  by (simp add: new_PublicKey_def bs58_decode_length_def ALPHABET_def)

lemma simulated_address_invalid:
  "new_PublicKey (''LazorKitWallet'' @ rnd) = Inl (Error ''Non-base58 character'')"
  by (rule new_PublicKey_outside [where c = "CHR ''l''"]) (simp_all add: ALPHABET_def)

subsection \<open>Session-key permissions\<close>

lemma js_lt_NaN: "js_lt x NaN = False"
  by (cases x) simp_all

lemma js_ge_Finite: "js_ge (Finite a) (Finite b) \<longleftrightarrow> a \<ge> b"
  by (auto simp: js_ge_def js_le_def)

lemma js_le_Finite: "js_le (Finite a) (Finite b) \<longleftrightarrow> a \<le> b"
  by (auto simp: js_le_def)

lemma not_js_lt_iff: "\<not> js_lt x y \<longleftrightarrow> x = NaN \<or> y = NaN \<or> js_ge x y"
  by (auto simp: js_ge_def js_le_def js_lt_NaN)

lemma amount_test_iff:
  "\<not> (js_truthy m \<and> js_gt amt m) \<longleftrightarrow>
     m = Finite 0 \<or> m = NaN \<or> amt = NaN \<or> js_le amt m"
  by (cases m) (auto simp: js_gt_def js_le_def js_lt_NaN)

text \<open>
  C10. The claim: for every session key, recipient, amount, token and current time,
  \<^verbatim>\<open>validateSessionKeyPermissions\<close> returns true if and only if \<^verbatim>\<open>expiresAt >= now\<close>,
  and the amount limit is unset or zero or \<^verbatim>\<open>amount <= maxAmount\<close>, and the two lists
  admit the recipient and the token. A key without permissions whose \<^verbatim>\<open>expiresAt\<close> is
  \<^verbatim>\<open>NaN\<close> is accepted, although \<^verbatim>\<open>expiresAt >= now\<close> is false; so is the amount
  \<^verbatim>\<open>NaN\<close> under the limit 100, although \<^verbatim>\<open>amount <= maxAmount\<close> is false.
\<close>

theorem validateSessionKeyPermissions_NaN:
  "validateSessionKeyPermissions (Finite 1000)
     \<lparr> publicKey_of = PublicKey 0,
       permissions = \<lparr> maxAmount = None, allowedRecipients = None,
                       allowedTokens = None, allowedPrograms = None \<rparr>,
       createdAt = Finite 0, expiresAt = NaN \<rparr>
     (PublicKey 1) (Finite 500) (PublicKey 7)
   \<and> \<not> js_ge NaN (Finite 1000)
   \<and> validateSessionKeyPermissions (Finite 1000)
     \<lparr> publicKey_of = PublicKey 0,
       permissions = \<lparr> maxAmount = Some (Finite 100), allowedRecipients = None,
                       allowedTokens = None, allowedPrograms = None \<rparr>,
       createdAt = Finite 0, expiresAt = Finite 2000 \<rparr>
     (PublicKey 1) NaN (PublicKey 7)
   \<and> \<not> js_le NaN (Finite 100)"
  by (simp add: validateSessionKeyPermissions_def js_ge_def js_le_def js_gt_def)

text \<open>
  C10, as amended. For every session key, recipient, amount, token and current time,
  \<^verbatim>\<open>validateSessionKeyPermissions\<close> returns true if and only if
  \<^verbatim>\<open>expiresAt >= now\<close> or one of the two is \<^verbatim>\<open>NaN\<close>, and the amount limit is unset, zero
  or \<^verbatim>\<open>NaN\<close>, or the amount is \<^verbatim>\<open>NaN\<close>, or \<^verbatim>\<open>amount <= maxAmount\<close>, and the recipient
  list is unset or contains the recipient, and the token list is unset or contains the
  token. So a limit of 0 is no limit, and a key whose \<^verbatim>\<open>expiresAt\<close> is a number below
  \<^verbatim>\<open>now\<close> is rejected whatever its permissions. On numbers other than \<^verbatim>\<open>NaN\<close> the
  comparisons are those of the order of the numbers (\<open>js_ge_Finite\<close>, \<open>js_le_Finite\<close>).
\<close>

theorem validateSessionKeyPermissions_iff:
  "validateSessionKeyPermissions now k rcpt amt tok \<longleftrightarrow>
     (expiresAt k = NaN \<or> now = NaN \<or> js_ge (expiresAt k) now)
     \<and> (maxAmount (permissions k) = None
          \<or> maxAmount (permissions k) = Some (Finite 0)
          \<or> maxAmount (permissions k) = Some NaN
          \<or> amt = NaN
          \<or> (\<exists>m. maxAmount (permissions k) = Some m \<and> js_le amt m))
     \<and> (allowedRecipients (permissions k) = None
          \<or> (\<exists>rs. allowedRecipients (permissions k) = Some rs \<and> rcpt \<in> set rs))
     \<and> (allowedTokens (permissions k) = None
          \<or> (\<exists>ts. allowedTokens (permissions k) = Some ts \<and> tok \<in> set ts))"
proof -
  have expiry: "\<not> js_lt (expiresAt k) now \<longleftrightarrow>
                  expiresAt k = NaN \<or> now = NaN \<or> js_ge (expiresAt k) now"
    by (rule not_js_lt_iff)
  have limit: "\<not> (case maxAmount (permissions k) of
                     None \<Rightarrow> False | Some m \<Rightarrow> js_truthy m \<and> js_gt amt m) \<longleftrightarrow>
                 maxAmount (permissions k) = None
                 \<or> maxAmount (permissions k) = Some (Finite 0)
                 \<or> maxAmount (permissions k) = Some NaN
                 \<or> amt = NaN
                 \<or> (\<exists>m. maxAmount (permissions k) = Some m \<and> js_le amt m)"
  proof (cases "maxAmount (permissions k)")
    case None
    then show ?thesis by simp
  next
    case (Some m)
    then show ?thesis using amount_test_iff [of m amt] by auto
  qed
  have recipients: "\<not> (case allowedRecipients (permissions k) of
                     None \<Rightarrow> False | Some rs \<Rightarrow> \<not> list_ex (\<lambda>r. r = rcpt) rs) \<longleftrightarrow>
                 allowedRecipients (permissions k) = None
                 \<or> (\<exists>rs. allowedRecipients (permissions k) = Some rs \<and> rcpt \<in> set rs)"
    by (cases "allowedRecipients (permissions k)") (auto simp: list_ex_iff)
  have tokens: "\<not> (case allowedTokens (permissions k) of
                     None \<Rightarrow> False | Some ts \<Rightarrow> \<not> list_ex (\<lambda>t. t = tok) ts) \<longleftrightarrow>
                 allowedTokens (permissions k) = None
                 \<or> (\<exists>ts. allowedTokens (permissions k) = Some ts \<and> tok \<in> set ts)"
    by (cases "allowedTokens (permissions k)") (auto simp: list_ex_iff)
  have "validateSessionKeyPermissions now k rcpt amt tok \<longleftrightarrow>
          \<not> js_lt (expiresAt k) now
          \<and> \<not> (case maxAmount (permissions k) of
                     None \<Rightarrow> False | Some m \<Rightarrow> js_truthy m \<and> js_gt amt m)
          \<and> \<not> (case allowedRecipients (permissions k) of
                     None \<Rightarrow> False | Some rs \<Rightarrow> \<not> list_ex (\<lambda>r. r = rcpt) rs)
          \<and> \<not> (case allowedTokens (permissions k) of
                     None \<Rightarrow> False | Some ts \<Rightarrow> \<not> list_ex (\<lambda>t. t = tok) ts)"
    by (simp add: validateSessionKeyPermissions_def Let_def)
  then show ?thesis
    unfolding expiry limit recipients tokens .
qed

theorem validateSessionKeyPermissions_iff_witness:
  "validateSessionKeyPermissions (Finite 1000)
     \<lparr> publicKey_of = PublicKey 0,
       permissions = \<lparr> maxAmount = Some (Finite 0),
                       allowedRecipients = Some [PublicKey 5, PublicKey 1],
                       allowedTokens = None, allowedPrograms = None \<rparr>,
       createdAt = Finite 0, expiresAt = Finite 2000 \<rparr>
     (PublicKey 1) (Finite 500) (PublicKey 7)
   \<and> \<not> validateSessionKeyPermissions (Finite 3000)
     \<lparr> publicKey_of = PublicKey 0,
       permissions = \<lparr> maxAmount = None, allowedRecipients = None,
                       allowedTokens = None, allowedPrograms = None \<rparr>,
       createdAt = Finite 0, expiresAt = Finite 2000 \<rparr>
     (PublicKey 1) (Finite 500) (PublicKey 7)
   \<and> \<not> validateSessionKeyPermissions (Finite 1000)
     \<lparr> publicKey_of = PublicKey 0,
       permissions = \<lparr> maxAmount = Some (Finite 100), allowedRecipients = None,
                       allowedTokens = None, allowedPrograms = None \<rparr>,
       createdAt = Finite 0, expiresAt = Finite 2000 \<rparr>
     (PublicKey 1) (Finite 500) (PublicKey 7)"
  using validateSessionKeyPermissions_iff [of "Finite 1000"
     "\<lparr> publicKey_of = PublicKey 0,
       permissions = \<lparr> maxAmount = Some (Finite 0),
                       allowedRecipients = Some [PublicKey 5, PublicKey 1],
                       allowedTokens = None, allowedPrograms = None \<rparr>,
       createdAt = Finite 0, expiresAt = Finite 2000 \<rparr>" "PublicKey 1" "Finite 500" "PublicKey 7"]
    validateSessionKeyPermissions_iff [of "Finite 3000"
     "\<lparr> publicKey_of = PublicKey 0,
       permissions = \<lparr> maxAmount = None, allowedRecipients = None,
                       allowedTokens = None, allowedPrograms = None \<rparr>,
       createdAt = Finite 0, expiresAt = Finite 2000 \<rparr>" "PublicKey 1" "Finite 500" "PublicKey 7"]
    validateSessionKeyPermissions_iff [of "Finite 1000"
     "\<lparr> publicKey_of = PublicKey 0,
       permissions = \<lparr> maxAmount = Some (Finite 100), allowedRecipients = None,
                       allowedTokens = None, allowedPrograms = None \<rparr>,
       createdAt = Finite 0, expiresAt = Finite 2000 \<rparr>" "PublicKey 1" "Finite 500" "PublicKey 7"]
  by (simp add: js_ge_Finite js_le_Finite)

subsection \<open>Signing while disconnected\<close>

text \<open>
  C4. For every message and options, \<^verbatim>\<open>signMessage\<close> called while \<^verbatim>\<open>isConnected\<close> is
  false fails with the error "Wallet not connected" and leaves the whole state as it
  was: wallet address, transactions, last activity, loading flag, error field and the
  secure store.
\<close>

theorem signMessage_not_connected:
  "\<not> isConnected w \<Longrightarrow>
     signMessage rnd t message options w = (Inl (Error ''Wallet not connected''), w)"
  by (simp add: signMessage_def)

theorem signMessage_not_connected_witness:
  "\<not> isConnected (mounted Map.empty)
   \<and> signMessage ''k3j2h1'' 1700000000000 ''hello'' None (mounted Map.empty)
       = (Inl (Error ''Wallet not connected''), mounted Map.empty)"
  using signMessage_not_connected [of "mounted Map.empty" "''k3j2h1''" 1700000000000 "''hello''" None]
  by (simp add: mounted_def)

subsection \<open>A store that answers\<close>

lemma getItemAsync_noFaults: "getItemAsync noFaults key w = Inr (secureStore w key)"
  by (simp add: getItemAsync_def noFaults_def)

lemma setItemAsync_noFaults:
  "setItemAsync noFaults key v w = Inr (w\<lparr>secureStore := (secureStore w)(key \<mapsto> v)\<rparr>)"
  by (simp add: setItemAsync_def noFaults_def)

lemma deleteItemAsync_noFaults:
  "deleteItemAsync noFaults key w = Inr (w\<lparr>secureStore := (secureStore w)(key := None)\<rparr>)"
  by (simp add: deleteItemAsync_def noFaults_def)

subsection \<open>Restoring a session\<close>

lemma new_PublicKey_nonempty: "new_PublicKey a = Inr k \<Longrightarrow> a \<noteq> []"
  using new_PublicKey_empty by auto

lemma restoreWallet_valid:
  "new_PublicKey a = Inr k \<Longrightarrow>
     restoreWallet (Some a) w =
       Inr (w\<lparr>walletAddress := Some a, publicKey := Some k, isConnected := True\<rparr>)"
  by (frule new_PublicKey_nonempty) (simp add: restoreWallet_def)

lemma restoreWallet_invalid:
  "a \<noteq> [] \<Longrightarrow> new_PublicKey a = Inl e \<Longrightarrow>
     restoreWallet (Some a) w = Inl (w\<lparr>walletAddress := Some a\<rparr>)"
  by (simp add: restoreWallet_def)

text \<open>
  C2. For every persisted triple of a valid address, a timestamp and a well-formed
  serialised transaction list, \<^verbatim>\<open>restoreSession\<close>, reading a store that answers, gives a
  state with \<^verbatim>\<open>isConnected\<close> true, the persisted address and its key, and
  \<^verbatim>\<open>transactions\<close> equal to the list the stored text denotes, in the same order. A
  well-formed JSON text is not empty.
\<close>

theorem restoreSession_valid:
  assumes "secureStore w ''walletAddress'' = Some a"
    and "new_PublicKey a = Inr k"
    and "secureStore w ''lastActivity'' = Some ts"
    and "secureStore w ''transactions'' = Some raw"
    and "raw \<noteq> []"
    and "JSON_parse rt raw = Some txs"
  shows "isConnected (restoreSession rt noFaults w)
         \<and> walletAddress (restoreSession rt noFaults w) = Some a
         \<and> publicKey (restoreSession rt noFaults w) = Some k
         \<and> transactions (restoreSession rt noFaults w) = txs
         \<and> lastActivity (restoreSession rt noFaults w)
             = (if ts = [] then lastActivity w else Some (parseInt rt ts))
         \<and> secureStore (restoreSession rt noFaults w) = secureStore w"
  using assms
  by (simp add: restoreSession_def restoreSession_try_def getItemAsync_noFaults
      restoreWallet_valid restoreActivity_def restoreTransactions_def)

theorem restoreSession_valid_witness:
  "isConnected (restoreSession exampleRuntime noFaults (mounted validStore))
   \<and> walletAddress (restoreSession exampleRuntime noFaults (mounted validStore))
       = Some ''11111111111111111111111111111111''
   \<and> transactions (restoreSession exampleRuntime noFaults (mounted validStore)) = [exampleTx]"
proof -
  have 1: "secureStore (mounted validStore) ''walletAddress''
             = Some ''11111111111111111111111111111111''"
    by (simp add: mounted_def validStore_def)
  have 2: "secureStore (mounted validStore) ''lastActivity'' = Some ''1700000000000''"
    by (simp add: mounted_def validStore_def)
  have 3: "secureStore (mounted validStore) ''transactions'' = Some ''[tx_k2]''"
    by (simp add: mounted_def validStore_def)
  have 4: "''[tx_k2]'' \<noteq> []" by simp
  have 5: "JSON_parse exampleRuntime ''[tx_k2]'' = Some [exampleTx]"
    by (simp add: exampleRuntime_def)
  from restoreSession_valid [OF 1 new_PublicKey_system_program 2 3 4 5]
  show ?thesis by simp
qed



text \<open>
  C1. The claim: for every persisted state whose \<^verbatim>\<open>walletAddress\<close> is not a valid
  address, \<^verbatim>\<open>restoreSession\<close> leaves \<^verbatim>\<open>isConnected\<close> false, deletes the three keys, and
  does the same, without an error, when called again. The provider evaluated on such a
  store, which answers every call: \<^verbatim>\<open>isConnected\<close> stays false, but the three keys are
  still stored, the invalid text has become the provider's \<^verbatim>\<open>walletAddress\<close>, and the
  error field is set; a second call changes nothing.
\<close>

theorem restoreSession_invalid_address_keeps_keys:
  "\<not> isValidSolanaAddress ''not-a-public-key''
   \<and> restoreSession exampleRuntime noFaults (mounted invalidStore)
       = (mounted invalidStore)
           \<lparr>walletAddress := Some ''not-a-public-key'',
            error := Some ''Failed to restore session''\<rparr>
   \<and> \<not> isConnected (restoreSession exampleRuntime noFaults (mounted invalidStore))
   \<and> secureStore (restoreSession exampleRuntime noFaults (mounted invalidStore))
         ''walletAddress'' = Some ''not-a-public-key''
   \<and> secureStore (restoreSession exampleRuntime noFaults (mounted invalidStore))
         ''lastActivity'' = Some ''1700000000000''
   \<and> secureStore (restoreSession exampleRuntime noFaults (mounted invalidStore))
         ''transactions'' = Some ''[tx_k2]''
   \<and> restoreSession exampleRuntime noFaults
         (restoreSession exampleRuntime noFaults (mounted invalidStore))
       = restoreSession exampleRuntime noFaults (mounted invalidStore)"
proof -
  have bad: "new_PublicKey ''not-a-public-key'' = Inl (Error ''Non-base58 character'')"
    by (rule new_PublicKey_outside [where c = "CHR ''-''"]) (simp_all add: ALPHABET_def)
  have store: "secureStore (mounted invalidStore) ''walletAddress'' = Some ''not-a-public-key''"
    by (simp add: mounted_def invalidStore_def)
  have r: "restoreSession exampleRuntime noFaults (mounted invalidStore)
             = (mounted invalidStore)
                 \<lparr>walletAddress := Some ''not-a-public-key'',
                  error := Some ''Failed to restore session''\<rparr>"
    using bad store
    by (simp add: restoreSession_def restoreSession_try_def getItemAsync_noFaults
        restoreWallet_invalid)
  have again: "restoreSession exampleRuntime noFaults
                 ((mounted invalidStore)
                    \<lparr>walletAddress := Some ''not-a-public-key'',
                     error := Some ''Failed to restore session''\<rparr>)
               = (mounted invalidStore)
                   \<lparr>walletAddress := Some ''not-a-public-key'',
                    error := Some ''Failed to restore session''\<rparr>"
    using bad store
    by (simp add: restoreSession_def restoreSession_try_def getItemAsync_noFaults
        restoreWallet_invalid)
  show ?thesis
    using bad r again
    by (simp add: isValidSolanaAddress_def) (simp add: mounted_def invalidStore_def validStore_def)
qed

text \<open>
  The second provider, on any store whose address is not valid: it ends in the state of
  \<^verbatim>\<open>clearSession\<close>, which has no address and, when the deletions resolve, no key.
\<close>

lemma restoreSession_sdk_invalid:
  "a \<noteq> [] \<Longrightarrow> new_PublicKey a = Inl e \<Longrightarrow> secureStore w ''walletAddress'' = Some a \<Longrightarrow>
     restoreSession_sdk rt noFaults w = clearSession noFaults w"
  by (simp add: restoreSession_sdk_def restoreWallet_sdk_def getItemAsync_noFaults)

subsection \<open>Connecting and disconnecting\<close>

lemma clearSession_noFaults:
  "clearSession noFaults w =
     w\<lparr>walletAddress := None, publicKey := None, isConnected := False,
       transactions := [], lastActivity := None, error := None,
       secureStore := (secureStore w)(''walletAddress'' := None, ''lastActivity'' := None,
                                      ''transactions'' := None)\<rparr>"
  by (simp add: clearSession_def deleteItemAsync_noFaults)

lemma connectWallet_noFaults:
  "connectWallet rt noFaults rnd t1 t2 options w =
     w\<lparr>isLoading := False, error := None,
       walletAddress := Some (''LazorKitWallet'' @ rnd),
       publicKey := Some (PublicKey 0), isConnected := True, lastActivity := Some t2,
       secureStore := (secureStore w)(''walletAddress'' \<mapsto> ''LazorKitWallet'' @ rnd,
                                      ''lastActivity'' \<mapsto> toString rt t1)\<rparr>"
  by (simp add: connectWallet_def connectWallet_try_def Let_def
      new_PublicKey_system_program setItemAsync_noFaults)

lemma clearSession_resolving:
  "flt (DeleteItem ''walletAddress'') = None \<Longrightarrow> flt (DeleteItem ''lastActivity'') = None \<Longrightarrow>
   flt (DeleteItem ''transactions'') = None \<Longrightarrow>
     clearSession flt w =
       w\<lparr>walletAddress := None, publicKey := None, isConnected := False,
         transactions := [], lastActivity := None, error := None,
         secureStore := (secureStore w)(''walletAddress'' := None, ''lastActivity'' := None,
                                        ''transactions'' := None)\<rparr>"
  by (simp add: clearSession_def deleteItemAsync_def)

lemma clearSession_rejected:
  "flt (DeleteItem ''walletAddress'') = Some e \<Longrightarrow> clearSession flt w = w"
  by (simp add: clearSession_def deleteItemAsync_def)

text \<open>
  C6. The claim: in every execution, \<^verbatim>\<open>connectWallet\<close> followed by
  \<^verbatim>\<open>disconnectWallet\<close> ends with \<^verbatim>\<open>isConnected\<close> false and none of the three keys in
  the store. In \<^verbatim>\<open>clearSession\<close> the setters stand after the three awaited deletions
  in one \<^verbatim>\<open>try\<close> block: when the store rejects the first deletion, the provider that
  has just connected stays connected and keeps its two keys.
\<close>

theorem disconnect_rejected_deletion:
  "isConnected
     (disconnectWallet deletionRejected
        (connectWallet exampleRuntime noFaults ''x7f3k9q2a'' 1700000000000 1700000000001 None
           (mounted Map.empty)))
   \<and> secureStore
       (disconnectWallet deletionRejected
          (connectWallet exampleRuntime noFaults ''x7f3k9q2a'' 1700000000000 1700000000001 None
             (mounted Map.empty))) ''walletAddress''
       = Some ''LazorKitWalletx7f3k9q2a''
   \<and> secureStore
       (disconnectWallet deletionRejected
          (connectWallet exampleRuntime noFaults ''x7f3k9q2a'' 1700000000000 1700000000001 None
             (mounted Map.empty))) ''lastActivity''
       = Some ''1700000000000''"
proof -
  have "deletionRejected (DeleteItem ''walletAddress'') = Some (Error ''Could not delete'')"
    by (simp add: deletionRejected_def)
  then show ?thesis
    by (simp add: disconnectWallet_def clearSession_rejected connectWallet_noFaults
        exampleRuntime_def)
qed

text \<open>
  C6, as amended. In every execution in which the three deletions of
  \<^verbatim>\<open>disconnectWallet\<close> in the secure store resolve, \<^verbatim>\<open>connectWallet\<close> followed by
  \<^verbatim>\<open>disconnectWallet\<close> ends with \<^verbatim>\<open>isConnected\<close> false and none of the three keys in
  the store (and with no address, no key, no transactions, no last activity), whatever
  happened during the connection. \<^verbatim>\<open>disconnectWallet\<close> is \<^verbatim>\<open>clearSession\<close> and nothing
  else: it makes no call to an SDK or to a remote service, so the cleanup is gated on
  no remote call.
\<close>

theorem connect_then_disconnect:
  assumes "flt' (DeleteItem ''walletAddress'') = None"
    and "flt' (DeleteItem ''lastActivity'') = None"
    and "flt' (DeleteItem ''transactions'') = None"
  shows "\<not> isConnected (disconnectWallet flt' (connectWallet rt flt rnd t1 t2 options w))
   \<and> secureStore (disconnectWallet flt' (connectWallet rt flt rnd t1 t2 options w))
       ''walletAddress'' = None
   \<and> secureStore (disconnectWallet flt' (connectWallet rt flt rnd t1 t2 options w))
       ''lastActivity'' = None
   \<and> secureStore (disconnectWallet flt' (connectWallet rt flt rnd t1 t2 options w))
       ''transactions'' = None
   \<and> walletAddress (disconnectWallet flt' (connectWallet rt flt rnd t1 t2 options w)) = None
   \<and> publicKey (disconnectWallet flt' (connectWallet rt flt rnd t1 t2 options w)) = None
   \<and> transactions (disconnectWallet flt' (connectWallet rt flt rnd t1 t2 options w)) = []
   \<and> lastActivity (disconnectWallet flt' (connectWallet rt flt rnd t1 t2 options w)) = None"
  by (simp add: disconnectWallet_def clearSession_resolving [OF assms])

theorem connect_then_disconnect_witness:
  "noFaults (DeleteItem ''walletAddress'') = None
   \<and> noFaults (DeleteItem ''lastActivity'') = None
   \<and> noFaults (DeleteItem ''transactions'') = None
   \<and> \<not> isConnected
       (disconnectWallet noFaults
          (connectWallet exampleRuntime noFaults ''x7f3k9q2a'' 1700000000000 1700000000001 None
             (mounted Map.empty)))
   \<and> secureStore
       (disconnectWallet noFaults
          (connectWallet exampleRuntime noFaults ''x7f3k9q2a'' 1700000000000 1700000000001 None
             (mounted Map.empty))) ''walletAddress'' = None
   \<and> secureStore
       (disconnectWallet noFaults
          (connectWallet exampleRuntime noFaults ''x7f3k9q2a'' 1700000000000 1700000000001 None
             (mounted Map.empty))) ''lastActivity'' = None
   \<and> secureStore
       (disconnectWallet noFaults
          (connectWallet exampleRuntime noFaults ''x7f3k9q2a'' 1700000000000 1700000000001 None
             (mounted Map.empty))) ''transactions'' = None"
proof -
  have 1: "noFaults (DeleteItem ''walletAddress'') = None"
    and 2: "noFaults (DeleteItem ''lastActivity'') = None"
    and 3: "noFaults (DeleteItem ''transactions'') = None"
    by (simp_all add: noFaults_def)
  from 1 2 3
    connect_then_disconnect [OF 1 2 3, of exampleRuntime noFaults "''x7f3k9q2a''"
      1700000000000 1700000000001 None "mounted Map.empty"]
  show ?thesis by simp
qed

subsection \<open>Sending\<close>

lemma sendTransaction_disconnected:
  "\<not> isConnected w \<Longrightarrow>
     sendTransaction rt flt rnd t1 t2 t3 rcpt amt tok options w =
       (Inl (Error ''Wallet not connected''), w)"
  by (simp add: sendTransaction_def)

lemma sendTransaction_noFaults:
  "isConnected w \<Longrightarrow>
     sendTransaction rt noFaults rnd t1 t2 t3 rcpt amt tok options w =
       (Inr (''tx_'' @ rnd),
        w\<lparr>isLoading := False,
          transactions := newTx (''tx_'' @ rnd) t1 rcpt amt tok # transactions w,
          lastActivity := Some t2,
          secureStore := (secureStore w)
            (''transactions'' \<mapsto>
               JSON_stringify rt (newTx (''tx_'' @ rnd) t1 rcpt amt tok # transactions w),
             ''lastActivity'' \<mapsto> toString rt t3)\<rparr>)"
  by (simp add: sendTransaction_def sendTransaction_try_def Let_def setItemAsync_noFaults)

text \<open>The state after a call that throws in the \<^verbatim>\<open>try\<close> block holds the new record too.\<close>

lemma sendTransaction_try_transactions:
  "sendTransaction_try rt flt rnd t1 t2 t3 rcpt amt tok old w1 = r \<Longrightarrow>
     transactions (case r of Inl (e, v) \<Rightarrow> v | Inr (i, v) \<Rightarrow> v)
       = newTx (''tx_'' @ rnd) t1 rcpt amt tok # transactions w1
     \<and> walletAddress (case r of Inl (e, v) \<Rightarrow> v | Inr (i, v) \<Rightarrow> v) = walletAddress w1
     \<and> publicKey (case r of Inl (e, v) \<Rightarrow> v | Inr (i, v) \<Rightarrow> v) = publicKey w1
     \<and> isConnected (case r of Inl (e, v) \<Rightarrow> v | Inr (i, v) \<Rightarrow> v) = isConnected w1
     \<and> (\<forall>i v. r = Inr (i, v) \<longrightarrow> i = ''tx_'' @ rnd)"
  by (auto simp: sendTransaction_try_def Let_def setItemAsync_def
      split: option.splits sum.splits)

lemma sendTransaction_success:
  assumes "sendTransaction rt flt rnd t1 t2 t3 rcpt amt tok options w = (Inr txId, w')"
  shows "isConnected w \<and> isConnected w' \<and> txId = ''tx_'' @ rnd
         \<and> transactions w' = newTx (''tx_'' @ rnd) t1 rcpt amt tok # transactions w"
proof (cases "isConnected w")
  case False
  with assms show ?thesis
    by (simp add: sendTransaction_disconnected)
next
  case True
  define r where "r = sendTransaction_try rt flt rnd t1 t2 t3 rcpt amt tok (transactions w)
                        (w\<lparr>isLoading := True\<rparr>)"
  from sendTransaction_try_transactions [OF r_def [symmetric]] assms True
  show ?thesis
    by (cases r) (auto simp: sendTransaction_def r_def [symmetric])
qed

lemma send_call_success:
  assumes "send_call rt c w = (Inr txId, w')"
  shows "isConnected w \<and> isConnected w' \<and> txId = ''tx_'' @ call_rnd c
         \<and> transactions w' = record_of c # transactions w"
  using sendTransaction_success [OF assms [unfolded send_call_def]]
  by (simp add: record_of_def)

lemma send_all_transactions:
  assumes "send_all rt cs w = (Inr ids, w')"
  shows "transactions w' = rev (map record_of cs) @ transactions w"
  using assms
proof (induction cs arbitrary: w ids)
  case Nil
  then show ?case by simp
next
  case (Cons c cs)
  from Cons.prems obtain txId w1 ids1
    where first: "send_call rt c w = (Inr txId, w1)"
      and rest: "send_all rt cs w1 = (Inr ids1, w')"
    by (auto split: prod.splits sum.splits)
  from first have "transactions w1 = record_of c # transactions w"
    by (simp add: send_call_success)
  with Cons.IH [OF rest] show ?case by simp
qed

lemma connectedState_isConnected: "isConnected connectedState"
  by (simp add: connectedState_def connectWallet_noFaults)

lemma connectedState_transactions: "transactions connectedState = []"
  by (simp add: connectedState_def connectWallet_noFaults mounted_def)

text \<open>
  C5. After every successful \<^verbatim>\<open>sendTransaction\<close> the record it created is the first
  element of \<^verbatim>\<open>transactions\<close> and the earlier elements follow it unchanged, in their
  earlier order. So after any sequence of successful sends the list is the new records,
  newest first, followed by the list from before the sequence.
\<close>

theorem sendTransaction_newest_first:
  "(sendTransaction rt flt rnd t1 t2 t3 rcpt amt tok options w = (Inr txId, w1) \<longrightarrow>
      transactions w1 = newTx txId t1 rcpt amt tok # transactions w)
   \<and> (send_all rt cs w = (Inr ids, w') \<longrightarrow>
        transactions w' = rev (map record_of cs) @ transactions w)"
proof (intro conjI impI)
  assume "sendTransaction rt flt rnd t1 t2 t3 rcpt amt tok options w = (Inr txId, w1)"
  from sendTransaction_success [OF this]
  show "transactions w1 = newTx txId t1 rcpt amt tok # transactions w" by simp
next
  assume "send_all rt cs w = (Inr ids, w')"
  then show "transactions w' = rev (map record_of cs) @ transactions w"
    by (rule send_all_transactions)
qed

theorem sendTransaction_newest_first_witness:
  "fst (sendTransaction exampleRuntime noFaults ''a1'' 10 11 12
          ''11111111111111111111111111111112'' 10 ''USDC'' None connectedState)
     = Inr ''tx_a1''
   \<and> transactions (snd (sendTransaction exampleRuntime noFaults ''a1'' 10 11 12
          ''11111111111111111111111111111112'' 10 ''USDC'' None connectedState))
       = newTx ''tx_a1'' 10 ''11111111111111111111111111111112'' 10 ''USDC''
           # transactions connectedState
   \<and> fst (send_all exampleRuntime
          [\<lparr>call_faults = noFaults, call_rnd = ''a1'', call_t1 = 10, call_t2 = 11,
            call_t3 = 12, call_recipient = ''11111111111111111111111111111112'',
            call_amount = 10, call_token = ''USDC'', call_options = None\<rparr>,
           \<lparr>call_faults = noFaults, call_rnd = ''b2'', call_t1 = 20, call_t2 = 21,
            call_t3 = 22, call_recipient = ''11111111111111111111111111111112'',
            call_amount = 3, call_token = ''SOL'', call_options = None\<rparr>]
          connectedState) = Inr [''tx_a1'', ''tx_b2'']
   \<and> transactions (snd (send_all exampleRuntime
          [\<lparr>call_faults = noFaults, call_rnd = ''a1'', call_t1 = 10, call_t2 = 11,
            call_t3 = 12, call_recipient = ''11111111111111111111111111111112'',
            call_amount = 10, call_token = ''USDC'', call_options = None\<rparr>,
           \<lparr>call_faults = noFaults, call_rnd = ''b2'', call_t1 = 20, call_t2 = 21,
            call_t3 = 22, call_recipient = ''11111111111111111111111111111112'',
            call_amount = 3, call_token = ''SOL'', call_options = None\<rparr>]
          connectedState))
       = [newTx ''tx_b2'' 20 ''11111111111111111111111111111112'' 3 ''SOL'',
          newTx ''tx_a1'' 10 ''11111111111111111111111111111112'' 10 ''USDC'']"
proof -
  define c1 where "c1 = \<lparr>call_faults = noFaults, call_rnd = ''a1'', call_t1 = 10,
            call_t2 = 11, call_t3 = 12,
            call_recipient = ''11111111111111111111111111111112'', call_amount = 10,
            call_token = ''USDC'', call_options = None\<rparr>"
  define c2 where "c2 = \<lparr>call_faults = noFaults, call_rnd = ''b2'', call_t1 = 20,
            call_t2 = 21, call_t3 = 22,
            call_recipient = ''11111111111111111111111111111112'', call_amount = 3,
            call_token = ''SOL'', call_options = None\<rparr>"
  have ok1: "fst (sendTransaction exampleRuntime noFaults ''a1'' 10 11 12
          ''11111111111111111111111111111112'' 10 ''USDC'' None connectedState)
          = Inr ''tx_a1''"
    by (simp add: sendTransaction_noFaults connectedState_isConnected)
  then have run1: "sendTransaction exampleRuntime noFaults ''a1'' 10 11 12
          ''11111111111111111111111111111112'' 10 ''USDC'' None connectedState
          = (Inr ''tx_a1'', snd (sendTransaction exampleRuntime noFaults ''a1'' 10 11 12
          ''11111111111111111111111111111112'' 10 ''USDC'' None connectedState))"
    by (metis prod.collapse)
  have ok: "fst (send_all exampleRuntime [c1, c2] connectedState) = Inr [''tx_a1'', ''tx_b2'']"
    by (simp add: send_call_def sendTransaction_noFaults connectedState_isConnected
        c1_def c2_def)
  then have run: "send_all exampleRuntime [c1, c2] connectedState
                    = (Inr [''tx_a1'', ''tx_b2''],
                       snd (send_all exampleRuntime [c1, c2] connectedState))"
    by (metis prod.collapse)
  have single: "transactions (snd (sendTransaction exampleRuntime noFaults ''a1'' 10 11 12
          ''11111111111111111111111111111112'' 10 ''USDC'' None connectedState))
       = newTx ''tx_a1'' 10 ''11111111111111111111111111111112'' 10 ''USDC''
           # transactions connectedState"
    using sendTransaction_newest_first [THEN conjunct1, rule_format, OF run1] .
  have many: "transactions (snd (send_all exampleRuntime [c1, c2] connectedState))
       = rev (map record_of [c1, c2]) @ transactions connectedState"
    using sendTransaction_newest_first [THEN conjunct2, rule_format, OF run] .
  have recs: "rev (map record_of [c1, c2]) @ transactions connectedState
       = [newTx ''tx_b2'' 20 ''11111111111111111111111111111112'' 3 ''SOL'',
          newTx ''tx_a1'' 10 ''11111111111111111111111111111112'' 10 ''USDC'']"
    by (simp add: c1_def c2_def record_of_def connectedState_transactions)
  from ok1 single ok many recs show ?thesis
    unfolding c1_def c2_def by (intro conjI) simp_all
qed

text \<open>
  C7. The claim: every record appended by a successful \<^verbatim>\<open>sendTransaction\<close> has the
  status \<^verbatim>\<open>confirmed\<close> from the moment the call returns. The record appended to the
  connected state has the status \<^verbatim>\<open>pending\<close>.
\<close>

theorem sendTransaction_status_not_confirmed:
  "fst (sendTransaction exampleRuntime noFaults ''a1'' 10 11 12
          ''11111111111111111111111111111112'' 10 ''USDC'' None connectedState)
     = Inr ''tx_a1''
   \<and> map status (transactions (snd (sendTransaction exampleRuntime noFaults ''a1'' 10 11 12
          ''11111111111111111111111111111112'' 10 ''USDC'' None connectedState)))
     = [pending]
   \<and> pending \<noteq> confirmed"
  by (simp add: sendTransaction_noFaults connectedState_isConnected
      connectedState_transactions newTx_def)

text \<open>
  C7, as amended. Every record appended by a successful \<^verbatim>\<open>sendTransaction\<close> is appended
  within the call itself, which polls no network and calls no delegate, and carries the
  status \<^verbatim>\<open>pending\<close>; the identifier returned is the record's \<^verbatim>\<open>id\<close> and \<^verbatim>\<open>signature\<close>.
\<close>

theorem sendTransaction_status_pending:
  assumes "sendTransaction rt flt rnd t1 t2 t3 rcpt amt tok options w = (Inr txId, w')"
  shows "\<exists>tx. transactions w' = tx # transactions w \<and> status tx = pending
              \<and> tx_id tx = txId \<and> signature tx = txId"
  using sendTransaction_success [OF assms]
  by (simp add: newTx_def)

theorem sendTransaction_status_pending_witness:
  "\<exists>tx. transactions (snd (sendTransaction exampleRuntime noFaults ''a1'' 10 11 12
             ''11111111111111111111111111111112'' 10 ''USDC'' None connectedState))
           = tx # transactions connectedState
        \<and> status tx = pending \<and> tx_id tx = ''tx_a1'' \<and> signature tx = ''tx_a1''"
proof -
  have "fst (sendTransaction exampleRuntime noFaults ''a1'' 10 11 12
          ''11111111111111111111111111111112'' 10 ''USDC'' None connectedState)
          = Inr ''tx_a1''"
    by (simp add: sendTransaction_noFaults connectedState_isConnected)
  then have "sendTransaction exampleRuntime noFaults ''a1'' 10 11 12
          ''11111111111111111111111111111112'' 10 ''USDC'' None connectedState
          = (Inr ''tx_a1'', snd (sendTransaction exampleRuntime noFaults ''a1'' 10 11 12
          ''11111111111111111111111111111112'' 10 ''USDC'' None connectedState))"
    by (metis prod.collapse)
  from sendTransaction_status_pending [OF this] show ?thesis .
qed

text \<open>
  C3. The claim: a call of \<^verbatim>\<open>sendTransaction\<close> whose recipient is not a valid address,
  or whose amount is not positive, or whose amount exceeds the cached balance, fails and
  appends no record. On the connected state, a call with a valid recipient and the
  amount \<open>-5\<close> succeeds and appends its record.
\<close>

theorem sendTransaction_accepts_nonpositive_amount:
  "isConnected connectedState
   \<and> isValidSolanaAddress ''11111111111111111111111111111111''
   \<and> (- 5 :: real) \<le> 0
   \<and> fst (sendTransaction exampleRuntime noFaults ''a1'' 10 11 12
            ''11111111111111111111111111111111'' (- 5) ''USDC'' None connectedState)
       = Inr ''tx_a1''
   \<and> transactions (snd (sendTransaction exampleRuntime noFaults ''a1'' 10 11 12
            ''11111111111111111111111111111111'' (- 5) ''USDC'' None connectedState))
       = [newTx ''tx_a1'' 10 ''11111111111111111111111111111111'' (- 5) ''USDC'']"
  by (simp add: sendTransaction_noFaults connectedState_isConnected
      connectedState_transactions isValidSolanaAddress_def new_PublicKey_system_program)

text \<open>
  C3, as amended. A call of \<^verbatim>\<open>sendTransaction\<close> made while \<^verbatim>\<open>isConnected\<close> is false
  fails with "Wallet not connected" before any setter and any write to the store, so
  that no record is appended. A call made while connected, with a valid recipient and a
  store that answers, succeeds and puts its record in front of the list, whatever the
  amount: \<^verbatim>\<open>sendTransaction\<close> does not test the sign of the amount, and the provider
  holds no balance to compare it with.
\<close>

theorem sendTransaction_checks:
  "(\<not> isConnected w \<longrightarrow>
      sendTransaction rt flt rnd t1 t2 t3 rcpt amt tok options w
        = (Inl (Error ''Wallet not connected''), w))
   \<and> (isConnected w \<and> isValidSolanaAddress rcpt \<longrightarrow>
        fst (sendTransaction rt noFaults rnd t1 t2 t3 rcpt amt tok options w)
          = Inr (''tx_'' @ rnd)
        \<and> transactions (snd (sendTransaction rt noFaults rnd t1 t2 t3 rcpt amt tok options w))
            = newTx (''tx_'' @ rnd) t1 rcpt amt tok # transactions w)"
  by (simp add: sendTransaction_noFaults sendTransaction_disconnected)

theorem sendTransaction_checks_witness:
  "\<not> isConnected (mounted Map.empty)
   \<and> sendTransaction exampleRuntime noFaults ''a1'' 10 11 12
        ''11111111111111111111111111111111'' 10 ''USDC'' None (mounted Map.empty)
       = (Inl (Error ''Wallet not connected''), mounted Map.empty)
   \<and> isConnected connectedState
   \<and> isValidSolanaAddress ''11111111111111111111111111111111''
   \<and> fst (sendTransaction exampleRuntime noFaults ''a1'' 10 11 12
            ''11111111111111111111111111111111'' (- 5) ''USDC'' None connectedState)
       = Inr ''tx_a1''
   \<and> transactions (snd (sendTransaction exampleRuntime noFaults ''a1'' 10 11 12
            ''11111111111111111111111111111111'' (- 5) ''USDC'' None connectedState))
       = [newTx ''tx_a1'' 10 ''11111111111111111111111111111111'' (- 5) ''USDC'']"
proof -
  have 1: "\<not> isConnected (mounted Map.empty)"
    by (simp add: mounted_def)
  have 2: "isConnected connectedState
           \<and> isValidSolanaAddress ''11111111111111111111111111111111''"
    by (simp add: connectedState_isConnected isValidSolanaAddress_def
        new_PublicKey_system_program)
  from 1 2
    sendTransaction_checks [of "mounted Map.empty" exampleRuntime noFaults "''a1''" 10 11 12
      "''11111111111111111111111111111111''" 10 "''USDC''" None]
    sendTransaction_checks [of connectedState exampleRuntime noFaults "''a1''" 10 11 12
      "''11111111111111111111111111111111''" "- 5" "''USDC''" None]
  show ?thesis
    by (simp add: connectedState_transactions)
qed

subsection \<open>The connection flag and the address\<close>

text \<open>
  C8. The claim: after every operation, \<^verbatim>\<open>isConnected\<close> is true if and only if the
  stored address is present and valid. After \<^verbatim>\<open>connectWallet\<close> on a freshly mounted
  provider, \<^verbatim>\<open>isConnected\<close> is true and the address is the simulated identifier, which
  \<^verbatim>\<open>new PublicKey\<close> rejects.
\<close>

theorem connectWallet_address_not_valid:
  "isConnected connectedState
   \<and> walletAddress connectedState = Some ''LazorKitWalletx7f3k9q2a''
   \<and> \<not> hasValidAddress connectedState"
  using simulated_address_invalid [of "''x7f3k9q2a''"]
  by (simp add: connectedState_def connectWallet_noFaults hasValidAddress_def
      isValidSolanaAddress_def)

lemma sessionInv_fields:
  "walletAddress v = walletAddress w \<Longrightarrow> publicKey v = publicKey w \<Longrightarrow>
     isConnected v = isConnected w \<Longrightarrow> sessionInv v = sessionInv w"
  by (simp add: sessionInv_def hasValidAddress_def)

lemma sessionInv_mounted: "sessionInv (mounted store)"
  by (simp add: sessionInv_def mounted_def hasValidAddress_def)

lemma sessionInv_clearSession: "sessionInv w \<Longrightarrow> sessionInv (clearSession flt w)"
  by (auto simp: sessionInv_def clearSession_def deleteItemAsync_def hasValidAddress_def
      split: option.splits)

lemma hasValidAddress_simulated:
  "walletAddress w = Some (''LazorKitWallet'' @ rnd) \<Longrightarrow> \<not> hasValidAddress w"
  using simulated_address_invalid [of rnd]
  by (simp add: hasValidAddress_def isValidSolanaAddress_def)

lemma connectWallet_try_fields:
  "connectWallet_try rt flt rnd t1 t2 w0 = r \<Longrightarrow>
     (case r of
        Inl (e, v) \<Rightarrow> walletAddress v = Some (''LazorKitWallet'' @ rnd)
      | Inr v \<Rightarrow> walletAddress v = Some (''LazorKitWallet'' @ rnd)
                 \<and> publicKey v = Some (PublicKey 0) \<and> isConnected v)"
  by (auto simp: connectWallet_try_def Let_def new_PublicKey_system_program
      setItemAsync_def split: option.splits)

lemma sessionInv_connectWallet: "sessionInv (connectWallet rt flt rnd t1 t2 options w)"
proof -
  define r where "r = connectWallet_try rt flt rnd t1 t2 (w\<lparr>isLoading := True, error := None\<rparr>)"
  show ?thesis
  proof (cases r)
    case (Inl p)
    obtain e v where p: "p = (e, v)" by (cases p)
    from connectWallet_try_fields [OF r_def [symmetric]] Inl p
    have "walletAddress v = Some (''LazorKitWallet'' @ rnd)" by simp
    then have "\<not> hasValidAddress
                   (v\<lparr>error := Some (errorMessage e ''Failed to connect wallet''),
                      isConnected := False, isLoading := False\<rparr>)"
      by (intro hasValidAddress_simulated) simp
    with Inl p show ?thesis
      by (simp add: connectWallet_def r_def [symmetric] sessionInv_def)
  next
    case (Inr v)
    from connectWallet_try_fields [OF r_def [symmetric]] Inr
    show ?thesis
      by (simp add: connectWallet_def r_def [symmetric] sessionInv_def)
  qed
qed

lemma sessionInv_signMessage:
  "sessionInv w \<Longrightarrow> sessionInv (snd (signMessage rnd t message options w))"
  by (auto simp: sessionInv_def signMessage_def hasValidAddress_def Let_def)

lemma sessionInv_sendTransaction:
  assumes "sessionInv w"
  shows "sessionInv (snd (sendTransaction rt flt rnd t1 t2 t3 rcpt amt tok options w))"
proof (cases "isConnected w")
  case False
  with assms show ?thesis by (simp add: sendTransaction_disconnected)
next
  case True
  define r where "r = sendTransaction_try rt flt rnd t1 t2 t3 rcpt amt tok (transactions w)
                        (w\<lparr>isLoading := True\<rparr>)"
  define v where "v = (case r of Inl (e, v) \<Rightarrow> v | Inr (i, v) \<Rightarrow> v)"
  from sendTransaction_try_transactions [OF r_def [symmetric]]
  have "sessionInv v = sessionInv w"
    unfolding v_def by (intro sessionInv_fields) simp_all
  with assms have "sessionInv v" by simp
  then have "sessionInv (v\<lparr>error := x, isLoading := False\<rparr>)"
    and "sessionInv (v\<lparr>isLoading := False\<rparr>)" for x
    by (simp_all add: sessionInv_def hasValidAddress_def)
  with True show ?thesis
    by (cases r) (auto simp: sendTransaction_def r_def [symmetric] v_def)
qed

lemma restoreActivity_fields:
  "walletAddress (restoreActivity rt sa w) = walletAddress w"
  "publicKey (restoreActivity rt sa w) = publicKey w"
  "isConnected (restoreActivity rt sa w) = isConnected w"
  by (simp_all add: restoreActivity_def split: option.split)

lemma restoreTransactions_fields:
  "restoreTransactions rt st w = r \<Longrightarrow>
     walletAddress (case r of Inl v \<Rightarrow> v | Inr v \<Rightarrow> v) = walletAddress w
     \<and> publicKey (case r of Inl v \<Rightarrow> v | Inr v \<Rightarrow> v) = publicKey w
     \<and> isConnected (case r of Inl v \<Rightarrow> v | Inr v \<Rightarrow> v) = isConnected w"
  by (auto simp: restoreTransactions_def split: option.splits if_splits)

lemma sessionInv_restoreWallet:
  "sessionInv w \<Longrightarrow> restoreWallet sw w = r \<Longrightarrow>
     sessionInv (case r of Inl v \<Rightarrow> v | Inr v \<Rightarrow> v)"
  by (auto simp: restoreWallet_def sessionInv_def hasValidAddress_def Let_def
      isValidSolanaAddress_def split: option.splits sum.splits if_splits)

lemma sessionInv_restoreSession_try:
  assumes "sessionInv w" and "restoreSession_try rt flt w = r"
  shows "sessionInv (case r of Inl v \<Rightarrow> v | Inr v \<Rightarrow> v)"
proof (cases "getItemAsync flt ''walletAddress'' w")
  case Inl
  with assms show ?thesis by (auto simp: restoreSession_try_def)
next
  case sw: (Inr savedWallet)
  show ?thesis
  proof (cases "getItemAsync flt ''lastActivity'' w")
    case Inl
    with assms sw show ?thesis by (auto simp: restoreSession_try_def)
  next
    case sa: (Inr savedActivity)
    show ?thesis
    proof (cases "getItemAsync flt ''transactions'' w")
      case Inl
      with assms sw sa show ?thesis by (auto simp: restoreSession_try_def)
    next
      case st: (Inr savedTransactions)
      show ?thesis
      proof (cases "restoreWallet savedWallet w")
        case (Inl w1)
        with sessionInv_restoreWallet [OF assms(1) this] assms(2) sw sa st
        show ?thesis by (auto simp: restoreSession_try_def)
      next
        case (Inr w1)
        with sessionInv_restoreWallet [OF assms(1) this] have w1: "sessionInv w1" by simp
        from assms(2) sw sa st Inr
        have r: "restoreTransactions rt savedTransactions
                   (restoreActivity rt savedActivity w1) = r"
          by (simp add: restoreSession_try_def)
        from restoreTransactions_fields [OF r]
        have "sessionInv (case r of Inl v \<Rightarrow> v | Inr v \<Rightarrow> v) = sessionInv w1"
          by (intro sessionInv_fields) (simp_all add: restoreActivity_fields)
        with w1 show ?thesis by simp
      qed
    qed
  qed
qed

lemma sessionInv_restoreSession:
  assumes "sessionInv w"
  shows "sessionInv (restoreSession rt flt w)"
proof -
  define r where "r = restoreSession_try rt flt w"
  define v where "v = (case r of Inl v \<Rightarrow> v | Inr v \<Rightarrow> v)"
  from sessionInv_restoreSession_try [OF assms r_def [symmetric]]
  have v: "sessionInv v" by (simp add: v_def)
  then have "sessionInv (v\<lparr>error := Some ''Failed to restore session''\<rparr>)"
    by (simp add: sessionInv_def hasValidAddress_def)
  with v show ?thesis
    by (cases r) (simp_all add: restoreSession_def r_def [symmetric] v_def)
qed

lemma sessionInv_perform: "sessionInv w \<Longrightarrow> sessionInv (perform rt step w)"
proof -
  assume w: "sessionInv w"
  obtain flt op where step: "step = (flt, op)" by (cases step)
  from w show ?thesis
    unfolding step
    by (cases op)
       (simp_all add: sessionInv_restoreSession sessionInv_clearSession
          sessionInv_connectWallet sessionInv_signMessage sessionInv_sendTransaction
          disconnectWallet_def)
qed

lemma sessionInv_run: "sessionInv w \<Longrightarrow> sessionInv (run rt steps w)"
  by (induction steps arbitrary: w) (simp_all add: sessionInv_perform)

lemma restoreSession_validStore:
  "restoreSession exampleRuntime noFaults (mounted validStore)
     = (mounted validStore)
         \<lparr>walletAddress := Some ''11111111111111111111111111111111'',
          publicKey := Some (PublicKey 0), isConnected := True,
          lastActivity := Some 1700000000000, transactions := [exampleTx]\<rparr>"
  by (simp add: restoreSession_def restoreSession_try_def getItemAsync_noFaults mounted_def
      validStore_def restoreWallet_valid [OF new_PublicKey_system_program]
      restoreActivity_def restoreTransactions_def exampleRuntime_def)

text \<open>
  C8, as amended. After every sequence of operations on a mounted provider
  (\<^verbatim>\<open>restoreSession\<close>, \<^verbatim>\<open>connectWallet\<close>, \<^verbatim>\<open>disconnectWallet\<close>, \<^verbatim>\<open>signMessage\<close>,
  \<^verbatim>\<open>sendTransaction\<close>, \<^verbatim>\<open>clearSession\<close>), whichever calls of the store reject: if the
  stored address is present and valid then \<^verbatim>\<open>isConnected\<close> is true, and if
  \<^verbatim>\<open>isConnected\<close> is true then an address and a key are held. The address of a connected
  provider need not be valid.
\<close>

theorem session_invariant:
  "(hasValidAddress (run rt steps (mounted store)) \<longrightarrow>
      isConnected (run rt steps (mounted store)))
   \<and> (isConnected (run rt steps (mounted store)) \<longrightarrow>
        walletAddress (run rt steps (mounted store)) \<noteq> None
        \<and> publicKey (run rt steps (mounted store)) \<noteq> None)"
  using sessionInv_run [OF sessionInv_mounted, of rt steps store]
  by (simp add: sessionInv_def)

theorem session_invariant_witness:
  "hasValidAddress (run exampleRuntime [(noFaults, RestoreSession)] (mounted validStore))
   \<and> isConnected (run exampleRuntime [(noFaults, RestoreSession)] (mounted validStore))
   \<and> isConnected (run exampleRuntime
         [(noFaults, ConnectWallet ''x7f3k9q2a'' 1700000000000 1700000000001 None),
          (noFaults, SendTransaction ''a1'' 10 11 12 ''11111111111111111111111111111112''
                       10 ''USDC'' None)]
         (mounted Map.empty))
   \<and> walletAddress (run exampleRuntime
         [(noFaults, ConnectWallet ''x7f3k9q2a'' 1700000000000 1700000000001 None),
          (noFaults, SendTransaction ''a1'' 10 11 12 ''11111111111111111111111111111112''
                       10 ''USDC'' None)]
         (mounted Map.empty)) \<noteq> None
   \<and> publicKey (run exampleRuntime
         [(noFaults, ConnectWallet ''x7f3k9q2a'' 1700000000000 1700000000001 None),
          (noFaults, SendTransaction ''a1'' 10 11 12 ''11111111111111111111111111111112''
                       10 ''USDC'' None)]
         (mounted Map.empty)) \<noteq> None"
proof -
  have valid: "hasValidAddress
                 (run exampleRuntime [(noFaults, RestoreSession)] (mounted validStore))"
    by (simp add: restoreSession_validStore hasValidAddress_def isValidSolanaAddress_def
        new_PublicKey_system_program)
  have connected: "isConnected (run exampleRuntime
         [(noFaults, ConnectWallet ''x7f3k9q2a'' 1700000000000 1700000000001 None),
          (noFaults, SendTransaction ''a1'' 10 11 12 ''11111111111111111111111111111112''
                       10 ''USDC'' None)]
         (mounted Map.empty))"
    by (simp add: connectWallet_noFaults sendTransaction_noFaults)
  from valid connected
    session_invariant [of exampleRuntime "[(noFaults, RestoreSession)]" validStore]
    session_invariant [of exampleRuntime
         "[(noFaults, ConnectWallet ''x7f3k9q2a'' 1700000000000 1700000000001 None),
          (noFaults, SendTransaction ''a1'' 10 11 12 ''11111111111111111111111111111112''
                       10 ''USDC'' None)]"
         Map.empty]
  show ?thesis by blast
qed

end
